theory Spec2Isabelle
  imports Main "HOL-Library.Sublist" "HOL-Library.AList"
begin

section \<open>Python values and exceptions\<close>

text \<open>
  The values the component fields store and look up.  An object other than a string or an
  integer is \<open>PObj i k\<close>: its identity \<open>i\<close> and what \<^verbatim>\<open>getattr(value, "key", None)\<close> finds
  (\<open>None\<close> when the object has no attribute \<^verbatim>\<open>key\<close>).
\<close>

datatype pyval = PNone | PStr string | PInt int | PObj nat "pyval option"

text \<open>Python truthiness, as tested by \<^verbatim>\<open>if not key\<close>.\<close>

fun truthy :: "pyval \<Rightarrow> bool" where
  "truthy PNone = False"
| "truthy (PStr s) = (s \<noteq> [])"
| "truthy (PInt i) = (i \<noteq> 0)"
| "truthy (PObj i k) = True"

text \<open>\<^verbatim>\<open>isinstance(value, str) or isinstance(value, int)\<close>\<close>

fun is_identifier :: "pyval \<Rightarrow> bool" where
  "is_identifier (PStr s) = True"
| "is_identifier (PInt i) = True"
| "is_identifier v = False"

text \<open>\<^verbatim>\<open>getattr(value, "key", None)\<close> on a value that is neither a string nor an integer.\<close>

fun getattr_key :: "pyval \<Rightarrow> pyval" where
  "getattr_key (PObj i (Some k)) = k"
| "getattr_key v = PNone"

text \<open>
  The exceptions of \<^verbatim>\<open>exceptions.py\<close> and the built-in ones the code raises, each with
  its message where the code builds one.
\<close>

datatype error =
    AttributeError
  | TypeError
  | KeyError
  | AssertionError string
  | ValueError string
  | ComponentDoesNotExist string
  | ComponentIsNotRegistered string
  | ComponentRegisterError string

section \<open>Field descriptors (dbfield.py): the data\<close>

text \<open>
  The descriptors, by the attributes their methods read.  \<open>DBField\<close> and \<open>NDBField\<close>: the
  storage key \<^verbatim>\<open>_key\<close>, the default and the autocreate flag.  \<open>TagField\<close>: the category
  \<^verbatim>\<open>_category_key\<close> (\<open>None\<close> until \<^verbatim>\<open>__set_name__\<close> has run), the default tag and
  \<^verbatim>\<open>_enforce_single\<close>.  \<open>HostField\<close> and \<open>KeyField\<close> extend \<open>DBField\<close>; the mapping
  \<^verbatim>\<open>listing\<close> of a \<open>KeyField\<close> is a dictionary, held as its list of items.
\<close>

record db_field =
  df_key :: string
  df_default :: pyval
  df_autocreate :: bool

record tag_field =
  tf_category_key :: "string option"
  tf_default :: "string option"
  tf_enforce_single :: bool

record host_field =
  hf_key :: string
  hf_autocreate :: bool
  overridable :: bool
  hf_fallback_default :: pyval
  host_attribute :: "string option"

record key_field =
  kf_key :: string
  kf_default :: pyval
  kf_autocreate :: bool
  listing :: "(pyval \<times> pyval) list"

datatype field =
    DBField db_field
  | NDBField db_field
  | TagField tag_field
  | HostField host_field
  | KeyField key_field

section \<open>Component classes and the registry (component.py, listing.py)\<close>

text \<open>
  A component class, by the class attributes the code reads.  \<open>component_key\<close> and
  \<open>component_slot\<close> are strings (\<open>Component\<close> declares both as the empty string, and the
  code tests them by truthiness only).  \<open>name\<close> is the legacy attribute and \<open>slot\<close> the
  attribute \<^verbatim>\<open>owner.slot\<close>; each is \<open>None\<close> when the class has no such attribute.  The
  three field tables are the dictionaries \<^verbatim>\<open>_db_fields\<close>, \<^verbatim>\<open>_ndb_fields\<close> and
  \<^verbatim>\<open>_tag_fields\<close>, in insertion order.
\<close>

record component_class =
  qualname :: string
  component_key :: string
  component_slot :: string
  name :: "string option"
  slot :: "string option"
  cmd_set :: "nat option"
  db_fields :: "(string \<times> field) list"
  ndb_fields :: "(string \<times> field) list"
  tag_fields :: "(string \<times> tag_field) list"

text \<open>\<^verbatim>\<open>f"{new_type}"\<close>: the class's printed form.\<close>

definition str_of_class :: "component_class \<Rightarrow> string" where
  "str_of_class c = ''<class '' @ [CHR 0x27] @ qualname c @ [CHR 0x27] @ ''>''"

text \<open>
  \<^verbatim>\<open>COMPONENT_LISTING\<close>.  Its keys are what \<^verbatim>\<open>BaseComponent.__new__\<close> writes: a string, or
  \<open>None\<close> when the legacy name it falls back to is missing.
\<close>

type_synonym component_listing = "string option \<rightharpoonup> component_class"

definition get_component_class ::
  "component_listing \<Rightarrow> string \<Rightarrow> error + component_class" where
  "get_component_class COMPONENT_LISTING component_key' =
     (case COMPONENT_LISTING (Some component_key') of
        None \<Rightarrow>
          Inl (ComponentDoesNotExist
                (''Component with key '' @ component_key' @ '' has not been found. '' @
                 ''Make sure it has been imported before being used.''))
      | Some component_class \<Rightarrow> Inr component_class)"

text \<open>
  \<^verbatim>\<open>BaseComponent.__new__\<close>: the validation of a new class and its publication in the
  registry.  The result is the registry after the class statement, or the error raised.
\<close>

definition BaseComponent_new ::
  "component_listing \<Rightarrow> component_class \<Rightarrow> error + component_listing" where
  "BaseComponent_new COMPONENT_LISTING new_type =
     (if component_key new_type = [] \<and> component_slot new_type = []
      then Inr (COMPONENT_LISTING(name new_type \<mapsto> new_type))
      else if component_key new_type = []
      then Inl (ValueError (''A component_key is required for '' @ str_of_class new_type))
      else if component_slot new_type = []
      then Inl (ValueError (''A component_slot is required for '' @ str_of_class new_type))
      else Inr (COMPONENT_LISTING(Some (component_key new_type) \<mapsto> new_type)))"

text \<open>The base class \<^verbatim>\<open>Component\<close> itself, as component.py declares it.\<close>

definition Component :: component_class where
  "Component =
     \<lparr>qualname = ''evennia.contrib.base_systems.components.component.Component'',
      component_key = [], component_slot = [], name = None, slot = None, cmd_set = None,
      db_fields = [], ndb_fields = [], tag_fields = []\<rparr>"

text \<open>\<^verbatim>\<open>get_component_key\<close> and \<^verbatim>\<open>get_component_slot\<close>, with \<^verbatim>\<open>getattr(cls, "name", "")\<close>.\<close>

definition get_component_key :: "component_class \<Rightarrow> string" where
  "get_component_key c =
     (if component_key c \<noteq> [] then component_key c
      else (case name c of None \<Rightarrow> [] | Some n \<Rightarrow> n))"

definition get_component_slot :: "component_class \<Rightarrow> string" where
  "get_component_slot c =
     (if component_slot c \<noteq> [] then component_slot c
      else (case name c of None \<Rightarrow> [] | Some n \<Rightarrow> n))"

section \<open>Hosts, component instances and handlers: the object store\<close>

text \<open>
  Modelled from the spec: the collaborators the components consume through narrow
  interfaces are not part of these files.  The tag store is a set of (key, category) pairs
  with \<^verbatim>\<open>add(key, category)\<close>, \<^verbatim>\<open>remove(key, category)\<close> and \<^verbatim>\<open>clear(category)\<close>; the keyed
  attribute store is a dictionary with \<^verbatim>\<open>get(key, default)\<close>, \<^verbatim>\<open>set(key, value)\<close> and
  \<^verbatim>\<open>delete(key)\<close>; the command-set registry has \<^verbatim>\<open>add(cmdset)\<close> and \<^verbatim>\<open>remove(cmdset)\<close>; the
  signal facility registers and unregisters the listeners of a component instance.
\<close>

type_synonym tag_store = "(string \<times> string option) set"

definition tags_add :: "string \<Rightarrow> string option \<Rightarrow> tag_store \<Rightarrow> tag_store" where
  "tags_add key category T = insert (key, category) T"

definition tags_remove :: "string \<Rightarrow> string option \<Rightarrow> tag_store \<Rightarrow> tag_store" where
  "tags_remove key category T = T - {(key, category)}"

definition tags_clear :: "string option \<Rightarrow> tag_store \<Rightarrow> tag_store" where
  "tags_clear category T = Set.filter (\<lambda>t. snd t \<noteq> category) T"

text \<open>The tags of one category: the keys stored under it.\<close>

definition tags_in :: "string option \<Rightarrow> tag_store \<Rightarrow> string set" where
  "tags_in category T = fst ` Set.filter (\<lambda>t. snd t = category) T"

text \<open>
  A host object.  \<open>component_keys\<close> and \<open>component_names\<close> are the persisted attributes of
  these names (\<open>None\<close> when \<^verbatim>\<open>attributes.get\<close> finds nothing); \<open>attributes\<close> holds every other
  persisted attribute and \<open>nattributes\<close> the in-memory ones.  \<open>signal_handler\<close> is the
  attribute \<^verbatim>\<open>_signal_handler\<close>: the instances whose listeners are registered, or \<open>None\<close>
  while the attribute is unset.  \<open>component_handler\<close> is the attribute
  \<^verbatim>\<open>_component_handler\<close>: a reference to the handler, or \<open>None\<close> while unset.  \<open>pyattrs\<close> is
  what \<^verbatim>\<open>getattr(host, a, default)\<close> finds for the host's other attributes.
\<close>

record host_obj =
  host_name :: string
  component_keys :: "string list option"
  component_names :: "string list option"
  attributes :: "string \<rightharpoonup> pyval"
  nattributes :: "string \<rightharpoonup> pyval"
  tags :: tag_store
  cmdset :: "nat list"
  signal_handler :: "nat list option"
  component_handler :: "nat option"
  pyattrs :: "string \<rightharpoonup> pyval"

text \<open>A component instance: its class and the slot \<^verbatim>\<open>host\<close>.\<close>

record component =
  cls :: component_class
  host :: "nat option"

text \<open>A \<^verbatim>\<open>ComponentHandler\<close>: its \<^verbatim>\<open>host\<close> and the cache \<^verbatim>\<open>_loaded_components\<close>.\<close>

record handler =
  handler_host :: nat
  loaded_components :: "string \<rightharpoonup> nat"

text \<open>
  The store: every reference denotes an object of its kind; \<open>next_component\<close> is the
  reference the next instantiation of a component returns.
\<close>

record world =
  hosts :: "nat \<Rightarrow> host_obj"
  comps :: "nat \<Rightarrow> component"
  handlers :: "nat \<Rightarrow> handler"
  next_component :: nat

definition upd_host :: "nat \<Rightarrow> (host_obj \<Rightarrow> host_obj) \<Rightarrow> world \<Rightarrow> world" where
  "upd_host h f w = w\<lparr>hosts := (hosts w)(h := f (hosts w h))\<rparr>"

definition upd_comp :: "nat \<Rightarrow> (component \<Rightarrow> component) \<Rightarrow> world \<Rightarrow> world" where
  "upd_comp c f w = w\<lparr>comps := (comps w)(c := f (comps w c))\<rparr>"

definition upd_handler :: "nat \<Rightarrow> (handler \<Rightarrow> handler) \<Rightarrow> world \<Rightarrow> world" where
  "upd_handler r f w = w\<lparr>handlers := (handlers w)(r := f (handlers w r))\<rparr>"

text \<open>
  A statement either completes or raises; in both cases the store is the one its writes
  have left.  \<open>and_then\<close> runs the second statement when the first has completed.
\<close>

type_synonym stmt = "world \<Rightarrow> error option \<times> world"

definition and_then :: "stmt \<Rightarrow> stmt \<Rightarrow> stmt" where
  "and_then f g w = (case f w of (None, w') \<Rightarrow> g w' | (Some e, w') \<Rightarrow> (Some e, w'))"

text \<open>\<^verbatim>\<open>getattr(host, a, default)\<close>; the host's \<^verbatim>\<open>name\<close> is among its attributes.\<close>

definition host_getattr :: "host_obj \<Rightarrow> string \<Rightarrow> pyval \<Rightarrow> pyval" where
  "host_getattr ho a dflt =
     (if a = ''name'' then PStr (host_name ho)
      else (case pyattrs ho a of None \<Rightarrow> dflt | Some v \<Rightarrow> v))"

section \<open>Component instances (component.py)\<close>

text \<open>
  \<^verbatim>\<open>cls(host)\<close>: \<^verbatim>\<open>__init__\<close> asserts that the class has a slot and a key, or a legacy
  name, and binds the host.  \<^verbatim>\<open>load\<close> and \<^verbatim>\<open>default_create\<close> both return \<^verbatim>\<open>cls(host)\<close>.
\<close>

definition Component_init :: "component_class \<Rightarrow> nat option \<Rightarrow> world \<Rightarrow> (error + nat) \<times> world" where
  "Component_init c host' w =
     (if (component_slot c \<noteq> [] \<and> component_key c \<noteq> []) \<or>
         (case name c of None \<Rightarrow> False | Some n \<Rightarrow> n \<noteq> [])
      then (Inr (next_component w),
            w\<lparr>comps := (comps w)(next_component w := \<lparr>cls = c, host = host'\<rparr>),
              next_component := Suc (next_component w)\<rparr>)
      else (Inl (AssertionError ''All Components must have a slot and a key''), w))"

definition load :: "component_class \<Rightarrow> nat \<Rightarrow> world \<Rightarrow> (error + nat) \<times> world" where
  "load c host' w = Component_init c (Some host') w"

definition default_create :: "component_class \<Rightarrow> nat \<Rightarrow> world \<Rightarrow> (error + nat) \<times> world" where
  "default_create c host' w = Component_init c (Some host') w"

text \<open>\<^verbatim>\<open>self.host.cmdset.add(...)\<close> and \<^verbatim>\<open>.remove(...)\<close>, on the host the instance is bound to.\<close>

definition host_cmdset_add :: "nat \<Rightarrow> stmt" where
  "host_cmdset_add self w =
     (case cmd_set (cls (comps w self)) of
        None \<Rightarrow> (None, w)
      | Some cs \<Rightarrow>
          (case host (comps w self) of
             None \<Rightarrow> (Some AttributeError, w)
           | Some h \<Rightarrow> (None, upd_host h (\<lambda>ho. ho\<lparr>cmdset := cmdset ho @ [cs]\<rparr>) w)))"

definition host_cmdset_remove :: "nat \<Rightarrow> stmt" where
  "host_cmdset_remove self w =
     (case cmd_set (cls (comps w self)) of
        None \<Rightarrow> (None, w)
      | Some cs \<Rightarrow>
          (case host (comps w self) of
             None \<Rightarrow> (Some AttributeError, w)
           | Some h \<Rightarrow> (None, upd_host h (\<lambda>ho. ho\<lparr>cmdset := removeAll cs (cmdset ho)\<rparr>) w)))"

text \<open>\<^verbatim>\<open>Component.at_added(self, host)\<close>\<close>

definition at_added :: "nat \<Rightarrow> nat \<Rightarrow> stmt" where
  "at_added self host' w =
     (if host (comps w self) \<noteq> None \<and> host (comps w self) \<noteq> Some host'
      then (Some (ComponentRegisterError ''Components must not register twice!''), w)
      else and_then (host_cmdset_add self)
             (\<lambda>w'. (None, upd_comp self (\<lambda>c. c\<lparr>host := Some host'\<rparr>) w')) w)"

text \<open>\<^verbatim>\<open>Component.at_removed(self, host)\<close>\<close>

definition at_removed :: "nat \<Rightarrow> nat \<Rightarrow> stmt" where
  "at_removed self host' w =
     (if Some host' \<noteq> host (comps w self)
      then (Some (ValueError ''Component attempted to remove from the wrong host.''), w)
      else and_then (host_cmdset_remove self)
             (\<lambda>w'. (None, upd_comp self (\<lambda>c. c\<lparr>host := None\<rparr>) w')) w)"

section \<open>Field descriptors (dbfield.py): the methods\<close>

text \<open>
  Modelled from the spec: \<^verbatim>\<open>owner.add_field(name, field)\<close> is called by every
  \<^verbatim>\<open>__set_name__\<close> and defined in none of these files.  The field inserts itself into the
  owning class's field table (\<^verbatim>\<open>_db_fields\<close>, \<^verbatim>\<open>_ndb_fields\<close>, \<^verbatim>\<open>_tag_fields\<close>) under its
  field name.
\<close>

definition add_field :: "string \<Rightarrow> field \<Rightarrow> component_class \<Rightarrow> component_class" where
  "add_field nm fld owner =
     (case fld of
        TagField t \<Rightarrow> owner\<lparr>tag_fields := AList.update nm t (tag_fields owner)\<rparr>
      | NDBField d \<Rightarrow> owner\<lparr>ndb_fields := AList.update nm fld (ndb_fields owner)\<rparr>
      | _ \<Rightarrow> owner\<lparr>db_fields := AList.update nm fld (db_fields owner)\<rparr>)"

text \<open>The table a field of this kind is entered in, for looking it up again.\<close>

definition field_table :: "field \<Rightarrow> component_class \<Rightarrow> string \<rightharpoonup> field" where
  "field_table fld owner =
     (case fld of
        TagField t \<Rightarrow> map_of (map (\<lambda>(n, t). (n, TagField t)) (tag_fields owner))
      | NDBField d \<Rightarrow> map_of (ndb_fields owner)
      | _ \<Rightarrow> map_of (db_fields owner))"

text \<open>
  \<^verbatim>\<open>__set_name__\<close> of \<open>DBField\<close>, \<open>NDBField\<close> and \<open>TagField\<close>: the key is built from
  \<^verbatim>\<open>owner.get_component_slot()\<close>.  The result is the descriptor with its key and the owner
  with the field entered.
\<close>

definition DBField_set_name ::
  "db_field \<Rightarrow> component_class \<Rightarrow> string \<Rightarrow> error + (field \<times> component_class)" where
  "DBField_set_name self owner nm =
     (let self' = DBField (self\<lparr>df_key := get_component_slot owner @ ''::'' @ nm\<rparr>)
      in Inr (self', add_field nm self' owner))"

definition NDBField_set_name ::
  "db_field \<Rightarrow> component_class \<Rightarrow> string \<Rightarrow> error + (field \<times> component_class)" where
  "NDBField_set_name self owner nm =
     (let self' = NDBField (self\<lparr>df_key := get_component_slot owner @ ''::'' @ nm\<rparr>)
      in Inr (self', add_field nm self' owner))"

definition TagField_set_name ::
  "tag_field \<Rightarrow> component_class \<Rightarrow> string \<Rightarrow> error + (field \<times> component_class)" where
  "TagField_set_name self owner nm =
     (let self' = TagField (self\<lparr>tf_category_key := Some (get_component_slot owner @ ''::'' @ nm)\<rparr>)
      in Inr (self', add_field nm self' owner))"

text \<open>
  \<^verbatim>\<open>slot_name = owner.slot or owner.name\<close>, as \<open>HostField\<close> and \<open>KeyField\<close> compute it: reading
  an attribute the class does not have raises \<^verbatim>\<open>AttributeError\<close>.
\<close>

definition slot_or_name :: "component_class \<Rightarrow> error + string" where
  "slot_or_name owner =
     (case slot owner of
        None \<Rightarrow> Inl AttributeError
      | Some s \<Rightarrow>
          if s \<noteq> [] then Inr s
          else (case name owner of None \<Rightarrow> Inl AttributeError | Some n \<Rightarrow> Inr n))"

text \<open>
  The table holds the descriptor object itself, so the \<^verbatim>\<open>host_attribute\<close> that
  \<^verbatim>\<open>HostField.__set_name__\<close> assigns after \<^verbatim>\<open>add_field\<close> is the table entry's too.
\<close>

definition HostField_set_name ::
  "host_field \<Rightarrow> component_class \<Rightarrow> string \<Rightarrow> error + (field \<times> component_class)" where
  "HostField_set_name self owner nm =
     (case slot_or_name owner of
        Inl e \<Rightarrow> Inl e
      | Inr slot_name \<Rightarrow>
          (let self1 = self\<lparr>hf_key := slot_name @ ''::'' @ nm\<rparr>;
               self2 = (if host_attribute self1 = None
                        then self1\<lparr>host_attribute := Some (slot_name @ ''_'' @ nm)\<rparr>
                        else self1)
           in Inr (HostField self2, add_field nm (HostField self2) owner)))"

definition KeyField_set_name ::
  "key_field \<Rightarrow> component_class \<Rightarrow> string \<Rightarrow> error + (field \<times> component_class)" where
  "KeyField_set_name self owner nm =
     (case slot_or_name owner of
        Inl e \<Rightarrow> Inl e
      | Inr slot_name \<Rightarrow>
          (let self' = KeyField (self\<lparr>kf_key := slot_name @ ''::'' @ nm @ ''_key''\<rparr>)
           in Inr (self', add_field nm self' owner)))"

text \<open>The five \<^verbatim>\<open>__set_name__\<close> methods, by the kind of the descriptor.\<close>

definition set_name :: "field \<Rightarrow> component_class \<Rightarrow> string \<Rightarrow> error + (field \<times> component_class)" where
  "set_name fld owner nm =
     (case fld of
        DBField d \<Rightarrow> DBField_set_name d owner nm
      | NDBField d \<Rightarrow> NDBField_set_name d owner nm
      | TagField t \<Rightarrow> TagField_set_name t owner nm
      | HostField h \<Rightarrow> HostField_set_name h owner nm
      | KeyField k \<Rightarrow> KeyField_set_name k owner nm)"

text \<open>The storage key (for a \<open>TagField\<close>, the category) a descriptor has computed.\<close>

definition storage_key :: "field \<Rightarrow> string option" where
  "storage_key fld =
     (case fld of
        DBField d \<Rightarrow> Some (df_key d)
      | NDBField d \<Rightarrow> Some (df_key d)
      | TagField t \<Rightarrow> tf_category_key t
      | HostField h \<Rightarrow> Some (hf_key h)
      | KeyField k \<Rightarrow> Some (kf_key k))"

text \<open>
  Modelled from the spec: \<^verbatim>\<open>AttributeProperty\<close>, the base of \<open>DBField\<close>, is not part of these
  files.  It reads and writes the persisted keyed attribute \<^verbatim>\<open>_key\<close> through
  \<^verbatim>\<open>instance.attributes\<close>, which is \<^verbatim>\<open>self.host.attributes\<close>; a read of a missing attribute
  gives the default and, with autocreate, stores it.
\<close>

definition AttributeProperty_get ::
  "string \<Rightarrow> pyval \<Rightarrow> bool \<Rightarrow> nat \<Rightarrow> world \<Rightarrow> (error + pyval) \<times> world" where
  "AttributeProperty_get key dflt autocreate instance w =
     (case host (comps w instance) of
        None \<Rightarrow> (Inl AttributeError, w)
      | Some h \<Rightarrow>
          (case attributes (hosts w h) key of
             Some v \<Rightarrow> (Inr v, w)
           | None \<Rightarrow>
               (Inr dflt,
                if autocreate
                then upd_host h (\<lambda>ho. ho\<lparr>attributes := (attributes ho)(key \<mapsto> dflt)\<rparr>) w
                else w)))"

definition AttributeProperty_set :: "string \<Rightarrow> nat \<Rightarrow> pyval \<Rightarrow> stmt" where
  "AttributeProperty_set key instance v w =
     (case host (comps w instance) of
        None \<Rightarrow> (Some AttributeError, w)
      | Some h \<Rightarrow> (None, upd_host h (\<lambda>ho. ho\<lparr>attributes := (attributes ho)(key \<mapsto> v)\<rparr>) w))"

text \<open>\<^verbatim>\<open>TagField.__set__\<close> and \<^verbatim>\<open>TagField.__delete__\<close>, on \<^verbatim>\<open>instance.host.tags\<close>.\<close>

definition TagField_set :: "tag_field \<Rightarrow> nat \<Rightarrow> string \<Rightarrow> stmt" where
  "TagField_set self instance v w =
     (case host (comps w instance) of
        None \<Rightarrow> (Some AttributeError, w)
      | Some h \<Rightarrow>
          (let w1 = (if tf_enforce_single self
                     then upd_host h (\<lambda>ho. ho\<lparr>tags := tags_clear (tf_category_key self) (tags ho)\<rparr>) w
                     else w)
           in (None, upd_host h (\<lambda>ho. ho\<lparr>tags := tags_add v (tf_category_key self) (tags ho)\<rparr>) w1)))"

definition TagField_delete :: "tag_field \<Rightarrow> nat \<Rightarrow> stmt" where
  "TagField_delete self instance w =
     (case host (comps w instance) of
        None \<Rightarrow> (Some AttributeError, w)
      | Some h \<Rightarrow>
          (None, upd_host h (\<lambda>ho. ho\<lparr>tags := tags_clear (tf_category_key self) (tags ho)\<rparr>) w))"

text \<open>
  \<^verbatim>\<open>HostField.__get__\<close> and \<^verbatim>\<open>HostField.__set__\<close>.  The inherited default of the override is
  \<open>None\<close>; \<^verbatim>\<open>getattr\<close> with an attribute name that is not a string raises \<^verbatim>\<open>TypeError\<close>, and
  on a component bound to no host it finds nothing.
\<close>

definition HostField_from_host :: "host_field \<Rightarrow> nat \<Rightarrow> world \<Rightarrow> (error + pyval) \<times> world" where
  "HostField_from_host self instance w =
     (case host_attribute self of
        None \<Rightarrow> (Inl TypeError, w)
      | Some a \<Rightarrow>
          (Inr (case host (comps w instance) of
                  None \<Rightarrow> hf_fallback_default self
                | Some h \<Rightarrow> host_getattr (hosts w h) a (hf_fallback_default self)), w))"

definition HostField_get :: "host_field \<Rightarrow> nat \<Rightarrow> world \<Rightarrow> (error + pyval) \<times> world" where
  "HostField_get self instance w =
     (if overridable self
      then (case AttributeProperty_get (hf_key self) PNone (hf_autocreate self) instance w of
              (Inl e, w') \<Rightarrow> (Inl e, w')
            | (Inr override, w') \<Rightarrow>
                if override \<noteq> PNone then (Inr override, w')
                else HostField_from_host self instance w')
      else HostField_from_host self instance w)"

definition HostField_set :: "host_field \<Rightarrow> nat \<Rightarrow> pyval \<Rightarrow> stmt" where
  "HostField_set self instance v w =
     (if \<not> overridable self
      then (Some (AssertionError ''Cannot set a non-overridable host field''), w)
      else AttributeProperty_set (hf_key self) instance v w)"

text \<open>\<^verbatim>\<open>KeyField.__get__\<close> and \<^verbatim>\<open>KeyField.__set__\<close>; \<^verbatim>\<open>self.listing.get(key)\<close> is \<open>None\<close> for a
  key the mapping lacks.\<close>

definition listing_get :: "(pyval \<times> pyval) list \<Rightarrow> pyval \<Rightarrow> pyval" where
  "listing_get l k = (case map_of l k of None \<Rightarrow> PNone | Some v \<Rightarrow> v)"

definition KeyField_get :: "key_field \<Rightarrow> nat \<Rightarrow> world \<Rightarrow> (error + pyval) \<times> world" where
  "KeyField_get self instance w =
     (case AttributeProperty_get (kf_key self) (kf_default self) (kf_autocreate self) instance w of
        (Inl e, w') \<Rightarrow> (Inl e, w')
      | (Inr key, w') \<Rightarrow> (Inr (listing_get (listing self) key), w'))"

definition KeyField_set :: "key_field \<Rightarrow> nat \<Rightarrow> pyval \<Rightarrow> stmt" where
  "KeyField_set self instance v w =
     (if \<not> is_identifier v
      then (if \<not> truthy (getattr_key v)
            then (Some (ValueError ''Only str, int, or instances with keys are supported''), w)
            else AttributeProperty_set (kf_key self) instance (getattr_key v) w)
      else AttributeProperty_set (kf_key self) instance v w)"

section \<open>The component handler (holder.py)\<close>

text \<open>
  The property \<^verbatim>\<open>db_keys\<close>: the persisted list \<^verbatim>\<open>component_keys\<close> of the handler's host.
  When the attribute is missing it is created empty and extended by the legacy list
  \<^verbatim>\<open>component_names\<close>, if that one is non-empty.
\<close>

definition db_keys :: "nat \<Rightarrow> world \<Rightarrow> string list \<times> world" where
  "db_keys self w =
     (let h = handler_host (handlers w self) in
      case component_keys (hosts w h) of
        Some component_keys' \<Rightarrow> (component_keys', w)
      | None \<Rightarrow>
          (let component_keys' =
                 (case component_names (hosts w h) of
                    None \<Rightarrow> []
                  | Some legacy_names \<Rightarrow> if legacy_names \<noteq> [] then [] @ legacy_names else [])
           in (component_keys',
               upd_host h (\<lambda>ho. ho\<lparr>component_keys := Some component_keys'\<rparr>) w)))"

text \<open>\<^verbatim>\<open>get_by_key\<close>, \<^verbatim>\<open>get_by_slot\<close> and \<^verbatim>\<open>has_slot\<close>: lookups in \<^verbatim>\<open>_loaded_components\<close>.\<close>

definition get_by_key :: "nat \<Rightarrow> string \<Rightarrow> world \<Rightarrow> nat option" where
  "get_by_key self component_key' w = loaded_components (handlers w self) component_key'"

definition get_by_slot :: "nat \<Rightarrow> string \<Rightarrow> world \<Rightarrow> nat option" where
  "get_by_slot self slot_key w = loaded_components (handlers w self) slot_key"

definition has_slot :: "nat \<Rightarrow> string \<Rightarrow> world \<Rightarrow> bool" where
  "has_slot self slot_key w = (loaded_components (handlers w self) slot_key \<noteq> None)"

text \<open>
  \<^verbatim>\<open>self.host.signals\<close> is \<^verbatim>\<open>getattr(host, "_signal_handler", None)\<close>; calling a method of
  \<open>None\<close> raises \<^verbatim>\<open>AttributeError\<close>.
\<close>

definition signals_add :: "nat \<Rightarrow> nat \<Rightarrow> stmt" where
  "signals_add h component' w =
     (case signal_handler (hosts w h) of
        None \<Rightarrow> (Some AttributeError, w)
      | Some ls \<Rightarrow> (None, upd_host h (\<lambda>ho. ho\<lparr>signal_handler := Some (ls @ [component'])\<rparr>) w))"

definition signals_remove :: "nat \<Rightarrow> nat \<Rightarrow> stmt" where
  "signals_remove h component' w =
     (case signal_handler (hosts w h) of
        None \<Rightarrow> (Some AttributeError, w)
      | Some ls \<Rightarrow>
          (None, upd_host h (\<lambda>ho. ho\<lparr>signal_handler := Some (removeAll component' ls)\<rparr>) w))"

text \<open>\<^verbatim>\<open>_set_component\<close>: the instance is cached under its slot and under its key.\<close>

definition set_component :: "nat \<Rightarrow> nat \<Rightarrow> stmt" where
  "set_component self component' w =
     (let component_key' = get_component_key (cls (comps w component'));
          slot_key = get_component_slot (cls (comps w component'));
          w1 = upd_handler self
                 (\<lambda>hd. hd\<lparr>loaded_components := (loaded_components hd)(slot_key \<mapsto> component')\<rparr>) w;
          w2 = upd_handler self
                 (\<lambda>hd. hd\<lparr>loaded_components := (loaded_components hd)(component_key' \<mapsto> component')\<rparr>) w1
      in signals_add (handler_host (handlers w2 self)) component' w2)"

text \<open>
  \<^verbatim>\<open>_add_component_tags\<close>: the slot is added as a tag of category \<^verbatim>\<open>"components"\<close>, then every
  tag field with a truthy default is assigned its default.
\<close>

fun add_default_tags :: "(string \<times> tag_field) list \<Rightarrow> nat \<Rightarrow> stmt" where
  "add_default_tags [] component' w = (None, w)"
| "add_default_tags ((tag_field_name, fld) # rest) component' w =
     (case tf_default fld of
        None \<Rightarrow> add_default_tags rest component' w
      | Some default_tag \<Rightarrow>
          if default_tag \<noteq> []
          then and_then (TagField_set fld component' default_tag)
                 (add_default_tags rest component') w
          else add_default_tags rest component' w)"

definition add_component_tags :: "nat \<Rightarrow> nat \<Rightarrow> stmt" where
  "add_component_tags self component' w =
     (let slot_key = get_component_slot (cls (comps w component'));
          w1 = upd_host (handler_host (handlers w self))
                 (\<lambda>ho. ho\<lparr>tags := tags_add slot_key (Some ''components'') (tags ho)\<rparr>) w
      in add_default_tags (tag_fields (cls (comps w1 component'))) component' w1)"

text \<open>
  \<^verbatim>\<open>_remove_component_tags\<close>: the key is removed as a tag of category \<^verbatim>\<open>"components"\<close>, then
  every tag field is deleted.
\<close>

fun delete_tag_fields :: "(string \<times> tag_field) list \<Rightarrow> nat \<Rightarrow> stmt" where
  "delete_tag_fields [] component' w = (None, w)"
| "delete_tag_fields ((tag_field_name, fld) # rest) component' w =
     and_then (TagField_delete fld component') (delete_tag_fields rest component') w"

definition remove_component_tags :: "nat \<Rightarrow> nat \<Rightarrow> stmt" where
  "remove_component_tags self component' w =
     (let w1 = upd_host (handler_host (handlers w self))
                 (\<lambda>ho. ho\<lparr>tags := tags_remove (get_component_key (cls (comps w component')))
                                     (Some ''components'') (tags ho)\<rparr>) w
      in delete_tag_fields (tag_fields (cls (comps w1 component'))) component' w1)"

text \<open>\<^verbatim>\<open>ComponentHandler.add\<close>\<close>

definition append_db_key :: "nat \<Rightarrow> string \<Rightarrow> stmt" where
  "append_db_key self k w =
     (case db_keys self w of
        (ks, w1) \<Rightarrow>
          (None, upd_host (handler_host (handlers w1 self))
                   (\<lambda>ho. ho\<lparr>component_keys := Some (ks @ [k])\<rparr>) w1))"

definition add :: "nat \<Rightarrow> nat \<Rightarrow> stmt" where
  "add self component' w =
     (let component_key' = get_component_key (cls (comps w component')) in
      and_then (append_db_key self component_key')
        (and_then (set_component self component')
           (and_then (add_component_tags self component')
              (\<lambda>w'. at_added component' (handler_host (handlers w' self)) w'))) w)"

text \<open>
  \<^verbatim>\<open>ComponentHandler.remove\<close>.  \<^verbatim>\<open>list.remove\<close> raises \<^verbatim>\<open>ValueError\<close> for a value the list
  lacks and deletes its first occurrence otherwise; \<^verbatim>\<open>del d[k]\<close> raises \<^verbatim>\<open>KeyError\<close> for a
  missing key.
\<close>

definition remove_db_key :: "nat \<Rightarrow> string \<Rightarrow> stmt" where
  "remove_db_key self k w =
     (case db_keys self w of
        (ks, w1) \<Rightarrow>
          if k \<in> set ks
          then (None, upd_host (handler_host (handlers w1 self))
                        (\<lambda>ho. ho\<lparr>component_keys := Some (remove1 k ks)\<rparr>) w1)
          else (Some (ValueError ''list.remove(x): x not in list''), w1))"

definition del_loaded_component :: "nat \<Rightarrow> string \<Rightarrow> stmt" where
  "del_loaded_component self k w =
     (if loaded_components (handlers w self) k = None then (Some KeyError, w)
      else (None, upd_handler self
                    (\<lambda>hd. hd\<lparr>loaded_components := (loaded_components hd)(k := None)\<rparr>) w))"

definition handler_cmdset_remove :: "nat \<Rightarrow> nat \<Rightarrow> stmt" where
  "handler_cmdset_remove self component' w =
     (case cmd_set (cls (comps w component')) of
        None \<Rightarrow> (None, w)
      | Some cs \<Rightarrow>
          (None, upd_host (handler_host (handlers w self))
                   (\<lambda>ho. ho\<lparr>cmdset := removeAll cs (cmdset ho)\<rparr>) w))"

definition remove :: "nat \<Rightarrow> nat \<Rightarrow> stmt" where
  "remove self component' w =
     (let slot_key = get_component_slot (cls (comps w component')) in
      if \<not> has_slot self slot_key w
      then (Some (ComponentIsNotRegistered
                    (''Cannot remove '' @ slot_key @ '' from '' @
                     host_name (hosts w (handler_host (handlers w self))) @
                     '' as it is not registered.'')), w)
      else and_then (at_removed component' (handler_host (handlers w self)))
             (and_then (handler_cmdset_remove self component')
                (and_then (remove_component_tags self component')
                   (and_then (\<lambda>w'. signals_remove (handler_host (handlers w' self)) component' w')
                      (and_then (remove_db_key self slot_key)
                         (del_loaded_component self slot_key))))) w)"

text \<open>
  \<^verbatim>\<open>ComponentHandler.initialize\<close>.  \<^verbatim>\<open>get_component_class\<close> either raises or returns a class,
  and a class object is truthy, so the \<^verbatim>\<open>else\<close> branch of \<^verbatim>\<open>if component:\<close> is kept here
  as the source has it although no input reaches it.
\<close>

definition class_truthy :: "component_class \<Rightarrow> bool" where
  "class_truthy c = True"

fun initialize_loop :: "component_listing \<Rightarrow> nat \<Rightarrow> string list \<Rightarrow> stmt" where
  "initialize_loop L self [] w = (None, w)"
| "initialize_loop L self (component_key' # rest) w =
     (case get_component_class L component_key' of
        Inl e \<Rightarrow> (Some e, w)
      | Inr component' \<Rightarrow>
          if class_truthy component'
          then (case load component' (handler_host (handlers w self)) w of
                  (Inl e, w1) \<Rightarrow> (Some e, w1)
                | (Inr component_instance, w1) \<Rightarrow>
                    and_then (set_component self component_instance)
                      (initialize_loop L self rest) w1)
          else (Some (ComponentDoesNotExist
                        (''Could not initialize runtime component '' @ component_key' @
                         '' of '' @ host_name (hosts w (handler_host (handlers w self))))), w))"

definition initialize :: "component_listing \<Rightarrow> nat \<Rightarrow> stmt" where
  "initialize L self w =
     (case db_keys self w of
        (component_keys', w1) \<Rightarrow>
          if component_keys' = [] then (None, w1)
          else initialize_loop L self component_keys' w1)"

section \<open>The host mixin (holder.py)\<close>

text \<open>
  The properties \<^verbatim>\<open>components\<close> and \<^verbatim>\<open>cmp\<close>:
  \<^verbatim>\<open>getattr(self, "_component_handler", None)\<close>.  The result \<open>None\<close> is Python's \<open>None\<close>.
\<close>

definition components :: "nat \<Rightarrow> world \<Rightarrow> nat option" where
  "components self w = component_handler (hosts w self)"

definition cmp :: "nat \<Rightarrow> world \<Rightarrow> nat option" where
  "cmp self w = components self w"

text \<open>
  \<^verbatim>\<open>ComponentHandler.__init__\<close> on the new handler object \<open>self\<close>, and
  \<^verbatim>\<open>ComponentHolderMixin.at_init\<close>, where \<open>r\<close> is the reference of the handler it creates: the
  two handlers are set on the host, then \<^verbatim>\<open>self.components.initialize()\<close> runs.  The
  inherited \<^verbatim>\<open>at_init\<close> and the signal it triggers at the end belong to the collaborators.
\<close>

definition ComponentHandler_init :: "nat \<Rightarrow> nat \<Rightarrow> world \<Rightarrow> world" where
  "ComponentHandler_init self host' w =
     upd_handler self (\<lambda>hd. \<lparr>handler_host = host', loaded_components = Map.empty\<rparr>) w"

definition at_init :: "component_listing \<Rightarrow> nat \<Rightarrow> nat \<Rightarrow> stmt" where
  "at_init L self r w =
     (let w1 = upd_host self (\<lambda>ho. ho\<lparr>component_handler := Some r\<rparr>)
                 (ComponentHandler_init r self w);
          w2 = upd_host self (\<lambda>ho. ho\<lparr>signal_handler := Some []\<rparr>) w1
      in case components self w2 of
           None \<Rightarrow> (Some AttributeError, w2)
         | Some r' \<Rightarrow> initialize L r' w2)"

section \<open>Concrete objects\<close>

text \<open>
  A host as it is before any handler is instantiated and before anything is persisted on
  it, and a store of such hosts with no component instance created yet.
\<close>

definition new_host :: "string \<Rightarrow> host_obj" where
  "new_host nm =
     \<lparr>host_name = nm, component_keys = None, component_names = None,
      attributes = Map.empty, nattributes = Map.empty, tags = {}, cmdset = [],
      signal_handler = None, component_handler = None, pyattrs = Map.empty\<rparr>"

definition new_world :: world where
  "new_world =
     \<lparr>hosts = (\<lambda>h. new_host []),
      comps = (\<lambda>c. \<lparr>cls = Component, host = None\<rparr>),
      handlers = (\<lambda>r. \<lparr>handler_host = r, loaded_components = Map.empty\<rparr>),
      next_component = 0\<rparr>"

text \<open>The same store with the component instance \<open>0\<close> bound to the host \<open>1\<close>.\<close>

definition bound_world :: world where
  "bound_world = upd_comp 0 (\<lambda>c. c\<lparr>host := Some 1\<rparr>) new_world"

text \<open>
  Two component classes: one declaring key and slot, one declaring only the legacy name.
\<close>

definition Health :: component_class where
  "Health = Component\<lparr>qualname := ''Health'', component_key := ''health'',
                      component_slot := ''health''\<rparr>"

definition Legacy :: component_class where
  "Legacy = Component\<lparr>qualname := ''Legacy'', name := Some ''legacy''\<rparr>"

text \<open>Descriptors whose keys \<^verbatim>\<open>__set_name__\<close> has already computed.\<close>

definition single_tag :: tag_field where
  "single_tag = \<lparr>tf_category_key = Some ''mood::state'', tf_default = None,
                  tf_enforce_single = True\<rparr>"

definition multi_tag :: tag_field where
  "multi_tag = \<lparr>tf_category_key = Some ''mood::state'', tf_default = None,
                 tf_enforce_single = False\<rparr>"

definition strength_field :: host_field where
  "strength_field = \<lparr>hf_key = ''fighter::strength'', hf_autocreate = False, overridable = False,
                      hf_fallback_default = PInt 10, host_attribute = Some ''strength''\<rparr>"

definition sword_field :: key_field where
  "sword_field =
     \<lparr>kf_key = ''fighter::weapon_key'', kf_default = PNone, kf_autocreate = False,
      listing = [(PStr ''sword1'', PObj 10 (Some (PStr ''sword1''))), (PInt 3, PObj 11 None)]\<rparr>"

text \<open>Three descriptors before \<^verbatim>\<open>__set_name__\<close> has run.\<close>

definition weapon_field :: key_field where
  "weapon_field = \<lparr>kf_key = [], kf_default = PNone, kf_autocreate = False, listing = []\<rparr>"

definition owner_field :: host_field where
  "owner_field = \<lparr>hf_key = [], hf_autocreate = False, overridable = False,
                   hf_fallback_default = PNone, host_attribute = None\<rparr>"

definition plain_field :: db_field where
  "plain_field = \<lparr>df_key = [], df_default = PNone, df_autocreate = False\<rparr>"

text \<open>
  A store in which the host \<open>1\<close> is named Bob and its persisted list names one component,
  \<open>ghost\<close>.
\<close>

definition Bob_world :: world where
  "Bob_world =
     upd_host 1 (\<lambda>ho. ho\<lparr>host_name := ''Bob'', component_keys := Some [''ghost'']\<rparr>) new_world"


definition Mount :: component_class where
  "Mount = Component\<lparr>qualname := ''Mount'', component_key := ''horse'', component_slot := ''mount''\<rparr>"

definition Saddle :: component_class where
  "Saddle = Component\<lparr>qualname := ''Saddle'', component_key := ''mount'', component_slot := ''saddle''\<rparr>"

text \<open>
  Stores built by the code itself: \<^verbatim>\<open>at_init\<close> on the host \<open>1\<close> with nothing persisted, then
  component instances made by \<^verbatim>\<open>default_create\<close> (the first is \<open>0\<close>, the second \<open>1\<close>) and
  added through the handler \<open>1\<close>.
\<close>

definition ready_world :: world where
  "ready_world = snd (at_init Map.empty 1 1 new_world)"

definition mount_world :: world where
  "mount_world = snd (default_create Mount 1 ready_world)"

definition saddle_mount_world :: world where
  "saddle_mount_world =
     snd (add 1 0 (snd (default_create Mount 1 (snd (default_create Saddle 1 ready_world)))))"



text \<open>
  A component class with one tag field, and the store with its instance \<open>0\<close> made by
  \<^verbatim>\<open>default_create\<close> for the initialised host \<open>1\<close>.
\<close>

definition Mood :: component_class where
  "Mood = Component\<lparr>qualname := ''Mood'', component_key := ''mood'', component_slot := ''mood'',
                    tag_fields := [(''state'', multi_tag)]\<rparr>"

definition mood_world :: world where
  "mood_world = snd (default_create Mood 1 ready_world)"

section \<open>Properties\<close>

lemmas store_defs =
  upd_host_def upd_comp_def upd_handler_def and_then_def new_world_def new_host_def

subsection \<open>Binding a component to a second host\<close>

text \<open>
  Claim C4.  For a component instance already bound to a host \<open>A\<close>, \<^verbatim>\<open>at_added\<close> with a
  different host \<open>B\<close> raises \<^verbatim>\<open>ComponentRegisterError\<close> and leaves the store as it was; in
  particular the instance is still bound to \<open>A\<close>.
\<close>

theorem at_added_other_host_raises:
  assumes "host (comps w self) = Some A" and "A \<noteq> B"
  shows "at_added self B w =
           (Some (ComponentRegisterError ''Components must not register twice!''), w)
         \<and> host (comps (snd (at_added self B w)) self) = Some A"
  using assms by (simp add: at_added_def)

theorem at_added_other_host_raises_witness:
  "host (comps (upd_comp 0 (\<lambda>c. c\<lparr>host := Some 1\<rparr>) new_world) 0) = Some 1 \<and> (1::nat) \<noteq> 2 \<and>
   at_added 0 2 (upd_comp 0 (\<lambda>c. c\<lparr>host := Some 1\<rparr>) new_world)
     = (Some (ComponentRegisterError ''Components must not register twice!''),
        upd_comp 0 (\<lambda>c. c\<lparr>host := Some 1\<rparr>) new_world) \<and>
   host (comps (snd (at_added 0 2 (upd_comp 0 (\<lambda>c. c\<lparr>host := Some 1\<rparr>) new_world))) 0) = Some 1"
proof -
  have bound: "host (comps (upd_comp 0 (\<lambda>c. c\<lparr>host := Some 1\<rparr>) new_world) 0) = Some 1"
    by (simp add: upd_comp_def)
  have other: "(1::nat) \<noteq> 2" by simp
  show ?thesis using at_added_other_host_raises [OF bound other] bound by simp
qed

subsection \<open>The accessor before the handler exists\<close>

text \<open>
  Claim C10.  On a host whose attribute \<^verbatim>\<open>_component_handler\<close> has not been set (neither
  \<^verbatim>\<open>at_init\<close> nor \<^verbatim>\<open>basetype_setup\<close> has run), the accessors \<^verbatim>\<open>components\<close> and \<^verbatim>\<open>cmp\<close>
  return \<open>None\<close>; they do not raise.
\<close>

theorem components_before_init_is_None:
  assumes "component_handler (hosts w self) = None"
  shows "components self w = None \<and> cmp self w = None"
  using assms by (simp add: components_def cmp_def)

theorem components_before_init_is_None_witness:
  "component_handler (hosts new_world 0) = None \<and>
   components 0 new_world = None \<and> cmp 0 new_world = None"
proof -
  have unset: "component_handler (hosts new_world 0) = None"
    by (simp add: new_world_def new_host_def)
  show ?thesis using components_before_init_is_None [OF unset] unset by simp
qed

subsection \<open>Class registration\<close>

lemma bound_world_host: "host (comps bound_world 0) = Some 1"
  by (simp add: bound_world_def upd_comp_def)

lemma Health_attrs: "component_key Health = ''health''" "component_slot Health = ''health''"
  by (simp_all add: Health_def)

lemma Legacy_attrs:
  "component_key Legacy = []" "component_slot Legacy = []" "name Legacy = Some ''legacy''"
  by (simp_all add: Legacy_def Component_def)

text \<open>
  Claim C3, as stated, fails on the base class \<^verbatim>\<open>Component\<close> itself: it declares neither key
  nor slot and has no legacy name, and \<^verbatim>\<open>BaseComponent.__new__\<close> publishes it under the key
  \<open>None\<close>.
\<close>

theorem Component_base_published_counterexample:
  "BaseComponent_new Map.empty Component = Inr [None \<mapsto> Component] \<and>
   component_key Component = [] \<and> name Component = None"
  by (simp add: BaseComponent_new_def Component_def)

text \<open>
  Claim C3, amended.  A class declaring exactly one of \<^verbatim>\<open>component_key\<close> and
  \<^verbatim>\<open>component_slot\<close> is rejected with a \<^verbatim>\<open>ValueError\<close> naming the missing one; a class
  declaring neither is published under its legacy \<^verbatim>\<open>name\<close>, whatever that is (\<open>None\<close> when
  the class has none); a class declaring both is published under its key.
\<close>

theorem BaseComponent_new_cases:
  "((component_key c = [] \<and> component_slot c \<noteq> []) \<longrightarrow>
      BaseComponent_new L c =
        Inl (ValueError (''A component_key is required for '' @ str_of_class c))) \<and>
   ((component_key c \<noteq> [] \<and> component_slot c = []) \<longrightarrow>
      BaseComponent_new L c =
        Inl (ValueError (''A component_slot is required for '' @ str_of_class c))) \<and>
   ((component_key c = [] \<and> component_slot c = []) \<longrightarrow>
      BaseComponent_new L c = Inr (L(name c \<mapsto> c))) \<and>
   ((component_key c \<noteq> [] \<and> component_slot c \<noteq> []) \<longrightarrow>
      BaseComponent_new L c = Inr (L(Some (component_key c) \<mapsto> c)))"
  unfolding BaseComponent_new_def by simp

theorem BaseComponent_new_cases_witness:
  "BaseComponent_new Map.empty (Health\<lparr>component_key := []\<rparr>)
     = Inl (ValueError (''A component_key is required for '' @
                         str_of_class (Health\<lparr>component_key := []\<rparr>))) \<and>
   BaseComponent_new Map.empty (Health\<lparr>component_slot := []\<rparr>)
     = Inl (ValueError (''A component_slot is required for '' @
                         str_of_class (Health\<lparr>component_slot := []\<rparr>))) \<and>
   BaseComponent_new Map.empty Legacy = Inr [Some ''legacy'' \<mapsto> Legacy] \<and>
   BaseComponent_new Map.empty Health = Inr [Some ''health'' \<mapsto> Health]"
  using BaseComponent_new_cases [of "Health\<lparr>component_key := []\<rparr>" Map.empty]
        BaseComponent_new_cases [of "Health\<lparr>component_slot := []\<rparr>" Map.empty]
        BaseComponent_new_cases [of Legacy Map.empty]
        BaseComponent_new_cases [of Health Map.empty]
  by (simp add: Health_attrs Legacy_attrs)

subsection \<open>Tag fields\<close>

lemma tags_in_add: "tags_in c (tags_add k c T) = insert k (tags_in c T)"
  by (auto simp: tags_in_def tags_add_def image_iff)

lemma tags_in_clear: "tags_in c (tags_clear c T) = {}"
  by (auto simp: tags_in_def tags_clear_def)

text \<open>
  Claim C5.  On an instance bound to a host, setting a \<open>TagField\<close> to \<open>A\<close> and then to \<open>B\<close>
  completes; with \<^verbatim>\<open>enforce_single\<close> the field's category then holds the tag \<open>B\<close> and no
  other, and without it the category holds \<open>A\<close> and \<open>B\<close> besides the tags it held before.
\<close>

theorem TagField_set_twice:
  assumes "host (comps w instance) = Some h"
  shows "fst (and_then (TagField_set fld instance A) (TagField_set fld instance B) w) = None \<and>
         (tf_enforce_single fld \<longrightarrow>
            tags_in (tf_category_key fld)
              (tags (hosts (snd (and_then (TagField_set fld instance A)
                                   (TagField_set fld instance B) w)) h))
            = {B}) \<and>
         (\<not> tf_enforce_single fld \<longrightarrow>
            tags_in (tf_category_key fld)
              (tags (hosts (snd (and_then (TagField_set fld instance A)
                                   (TagField_set fld instance B) w)) h))
            = {A, B} \<union> tags_in (tf_category_key fld) (tags (hosts w h)))"
  using assms
  by (simp add: and_then_def TagField_set_def upd_host_def upd_comp_def tags_in_add
      tags_in_clear Let_def insert_commute)

theorem TagField_set_twice_witness:
  "host (comps bound_world 0) = Some 1 \<and>
   tf_enforce_single single_tag \<and>
   fst (and_then (TagField_set single_tag 0 ''happy'') (TagField_set single_tag 0 ''sad'')
          bound_world) = None \<and>
   tags_in (tf_category_key single_tag)
     (tags (hosts (snd (and_then (TagField_set single_tag 0 ''happy'')
                          (TagField_set single_tag 0 ''sad'') bound_world)) 1)) = {''sad''} \<and>
   \<not> tf_enforce_single multi_tag \<and>
   tags_in (tf_category_key multi_tag)
     (tags (hosts (snd (and_then (TagField_set multi_tag 0 ''happy'')
                          (TagField_set multi_tag 0 ''sad'') bound_world)) 1))
     = {''happy'', ''sad''} \<union> tags_in (tf_category_key multi_tag) (tags (hosts bound_world 1))"
  using TagField_set_twice [OF bound_world_host, of single_tag "''happy''" "''sad''"]
        TagField_set_twice [OF bound_world_host, of multi_tag "''happy''" "''sad''"]
        bound_world_host
  by (simp add: single_tag_def multi_tag_def)

subsection \<open>Host fields\<close>

text \<open>
  Claim C7.  A \<open>HostField\<close> that is not overridable rejects every write with an
  \<^verbatim>\<open>AssertionError\<close> and writes nothing; a read writes nothing either and returns what
  \<^verbatim>\<open>getattr\<close> finds on the host under the field's \<^verbatim>\<open>host_attribute\<close>, or the fallback
  default when the host has no such attribute (or the instance has no host).
\<close>

theorem HostField_not_overridable:
  assumes "\<not> overridable self"
  shows "HostField_set self instance v w =
           (Some (AssertionError ''Cannot set a non-overridable host field''), w) \<and>
         (\<forall>a. host_attribute self = Some a \<longrightarrow>
            HostField_get self instance w =
              (Inr (case host (comps w instance) of
                      None \<Rightarrow> hf_fallback_default self
                    | Some h \<Rightarrow> host_getattr (hosts w h) a (hf_fallback_default self)), w))"
  using assms by (simp add: HostField_set_def HostField_get_def HostField_from_host_def)

lemma strength_attrs:
  "\<not> overridable strength_field" "host_attribute strength_field = Some ''strength''"
  "hf_fallback_default strength_field = PInt 10"
  by (simp_all add: strength_field_def)

theorem HostField_not_overridable_witness:
  "\<not> overridable strength_field \<and>
   HostField_set strength_field 0 (PInt 5) bound_world
     = (Some (AssertionError ''Cannot set a non-overridable host field''), bound_world) \<and>
   host_attribute strength_field = Some ''strength'' \<and>
   HostField_get strength_field 0 bound_world = (Inr (PInt 10), bound_world) \<and>
   HostField_get strength_field 0
       (upd_host 1 (\<lambda>ho. ho\<lparr>pyattrs := [''strength'' \<mapsto> PInt 18]\<rparr>) bound_world)
     = (Inr (PInt 18),
        upd_host 1 (\<lambda>ho. ho\<lparr>pyattrs := [''strength'' \<mapsto> PInt 18]\<rparr>) bound_world)"
  using HostField_not_overridable [OF strength_attrs(1), of 0 "PInt 5" bound_world]
        HostField_not_overridable [OF strength_attrs(1), of 0 "PInt 5"
           "upd_host 1 (\<lambda>ho. ho\<lparr>pyattrs := [''strength'' \<mapsto> PInt 18]\<rparr>) bound_world"]
        strength_attrs
  by (simp add: bound_world_def upd_comp_def upd_host_def new_world_def new_host_def
      host_getattr_def)

subsection \<open>Key fields\<close>

text \<open>
  Claim C6, as stated, fails on an object whose \<^verbatim>\<open>key\<close> attribute is the empty string: the
  object exposes a \<^verbatim>\<open>key\<close>, yet the assignment raises \<^verbatim>\<open>ValueError\<close> and stores nothing.
\<close>

theorem KeyField_falsy_key_counterexample:
  "getattr_key (PObj 7 (Some (PStr []))) = PStr [] \<and>
   KeyField_set sword_field 0 (PObj 7 (Some (PStr []))) bound_world
     = (Some (ValueError ''Only str, int, or instances with keys are supported''), bound_world)"
  by (simp add: KeyField_set_def)

text \<open>
  Claim C6, amended.  On an instance bound to a host: assigning a string or an integer
  stores it under the field's key; assigning another object whose \<^verbatim>\<open>key\<close> attribute is
  truthy stores that key; the next read returns what the field's mapping holds for the
  stored identifier, or \<open>None\<close> when it holds nothing; assigning another object whose
  \<^verbatim>\<open>key\<close> attribute is missing or falsy raises \<^verbatim>\<open>ValueError\<close> and stores nothing.
\<close>

theorem KeyField_set_get:
  assumes "host (comps w instance) = Some h"
  shows "(is_identifier v \<longrightarrow>
            fst (KeyField_set self instance v w) = None \<and>
            attributes (hosts (snd (KeyField_set self instance v w)) h) (kf_key self) = Some v \<and>
            fst (KeyField_get self instance (snd (KeyField_set self instance v w)))
              = Inr (case map_of (listing self) v of None \<Rightarrow> PNone | Some ob \<Rightarrow> ob)) \<and>
         (\<not> is_identifier v \<and> truthy (getattr_key v) \<longrightarrow>
            fst (KeyField_set self instance v w) = None \<and>
            attributes (hosts (snd (KeyField_set self instance v w)) h) (kf_key self)
              = Some (getattr_key v) \<and>
            fst (KeyField_get self instance (snd (KeyField_set self instance v w)))
              = Inr (case map_of (listing self) (getattr_key v) of
                       None \<Rightarrow> PNone | Some ob \<Rightarrow> ob)) \<and>
         (\<not> is_identifier v \<and> \<not> truthy (getattr_key v) \<longrightarrow>
            KeyField_set self instance v w
              = (Some (ValueError ''Only str, int, or instances with keys are supported''), w))"
  using assms
  by (simp add: KeyField_set_def KeyField_get_def AttributeProperty_set_def
      AttributeProperty_get_def upd_host_def listing_get_def)

theorem KeyField_set_get_witness:
  "host (comps bound_world 0) = Some 1 \<and>
   is_identifier (PInt 3) \<and>
   attributes (hosts (snd (KeyField_set sword_field 0 (PInt 3) bound_world)) 1)
      ''fighter::weapon_key'' = Some (PInt 3) \<and>
   fst (KeyField_get sword_field 0 (snd (KeyField_set sword_field 0 (PInt 3) bound_world)))
     = Inr (PObj 11 None) \<and>
   \<not> is_identifier (PObj 10 (Some (PStr ''sword1''))) \<and>
   truthy (getattr_key (PObj 10 (Some (PStr ''sword1'')))) \<and>
   attributes (hosts (snd (KeyField_set sword_field 0 (PObj 10 (Some (PStr ''sword1'')))
                             bound_world)) 1)
      ''fighter::weapon_key'' = Some (PStr ''sword1'') \<and>
   fst (KeyField_get sword_field 0
          (snd (KeyField_set sword_field 0 (PObj 10 (Some (PStr ''sword1''))) bound_world)))
     = Inr (PObj 10 (Some (PStr ''sword1''))) \<and>
   \<not> is_identifier (PObj 12 None) \<and> \<not> truthy (getattr_key (PObj 12 None)) \<and>
   KeyField_set sword_field 0 (PObj 12 None) bound_world
     = (Some (ValueError ''Only str, int, or instances with keys are supported''), bound_world)"
  using KeyField_set_get [OF bound_world_host, of "PInt 3" sword_field]
        KeyField_set_get [OF bound_world_host, of "PObj 10 (Some (PStr ''sword1''))" sword_field]
        KeyField_set_get [OF bound_world_host, of "PObj 12 None" sword_field]
        bound_world_host
  by (simp add: sword_field_def)

subsection \<open>Storage keys\<close>

lemma Health_slot:
  "slot Health = None" "name Health = None" "get_component_slot Health = ''health''"
  by (simp_all add: Health_def Component_def get_component_slot_def)

text \<open>
  \<open>DBField\<close>, \<open>NDBField\<close> and \<open>TagField\<close> build their key from the owner's component slot
  and enter themselves in the owner's table under their name.
\<close>

lemma set_name_by_component_slot:
  "fld = DBField d \<or> fld = NDBField d \<or> fld = TagField t \<Longrightarrow>
   \<exists>f c. set_name fld owner nm = Inr (f, c) \<and>
         storage_key f = Some (get_component_slot owner @ ''::'' @ nm) \<and>
         field_table f c nm = Some f"
  by (auto simp: set_name_def DBField_set_name_def NDBField_set_name_def TagField_set_name_def
      storage_key_def add_field_def field_table_def Let_def map_of_map update_Some_unfold
      AList.update_conv')

text \<open>
  Claim C8 fails for \<open>HostField\<close> and \<open>KeyField\<close>.  On the class \<open>Health\<close>, which declares
  \<^verbatim>\<open>component_key\<close> and \<^verbatim>\<open>component_slot\<close> \<open>health\<close> and nothing else, their \<^verbatim>\<open>__set_name__\<close>
  raises \<^verbatim>\<open>AttributeError\<close>, since it reads \<^verbatim>\<open>owner.slot\<close>; a \<open>DBField\<close> on the same class
  gets the key \<open>health::current\<close>.  On a class that also has an attribute \<^verbatim>\<open>slot\<close>, the key
  is built from that attribute and not from the component slot.
\<close>

theorem set_name_Health_evaluation:
  "get_component_slot Health = ''health'' \<and>
   KeyField_set_name weapon_field Health ''weapon'' = Inl AttributeError \<and>
   HostField_set_name owner_field Health ''owner'' = Inl AttributeError \<and>
   (case DBField_set_name plain_field Health ''current'' of
      Inl e \<Rightarrow> None | Inr (f, c) \<Rightarrow> storage_key f) = Some ''health::current'' \<and>
   (case KeyField_set_name weapon_field (Health\<lparr>slot := Some ''body''\<rparr>) ''weapon'' of
      Inl e \<Rightarrow> None | Inr (f, c) \<Rightarrow> storage_key f) = Some ''body::weapon_key''"
  by (simp add: Health_slot KeyField_set_name_def HostField_set_name_def slot_or_name_def
      DBField_set_name_def storage_key_def Let_def)

subsection \<open>Initialising the handler\<close>

text \<open>
  Claim C2 fails on the message.  On the host named Bob, whose persisted list holds the
  key \<open>ghost\<close> that the registry cannot resolve, \<^verbatim>\<open>at_init\<close> (through \<^verbatim>\<open>initialize\<close>) raises
  \<^verbatim>\<open>ComponentDoesNotExist\<close> with the message of \<^verbatim>\<open>get_component_class\<close>: it holds the key and
  not the host's name.
\<close>

theorem initialize_unresolved_key_evaluation:
  "host_name (hosts Bob_world 1) = ''Bob'' \<and>
   component_keys (hosts Bob_world 1) = Some [''ghost''] \<and>
   fst (at_init Map.empty 1 1 Bob_world)
     = Some (ComponentDoesNotExist
              (''Component with key ghost has not been found. '' @
               ''Make sure it has been imported before being used.'')) \<and>
   sublist ''ghost'' (''Component with key ghost has not been found. '' @
                      ''Make sure it has been imported before being used.'') \<and>
   \<not> sublist ''Bob'' (''Component with key ghost has not been found. '' @
                        ''Make sure it has been imported before being used.'')"
proof -
  have a: "host_name (hosts Bob_world 1) = ''Bob''"
    by (simp add: Bob_world_def store_defs)
  have b: "component_keys (hosts Bob_world 1) = Some [''ghost'']"
    by (simp add: Bob_world_def store_defs)
  have c: "fst (at_init Map.empty 1 1 Bob_world)
     = Some (ComponentDoesNotExist
              (''Component with key ghost has not been found. '' @
               ''Make sure it has been imported before being used.''))"
    by (simp add: at_init_def ComponentHandler_init_def components_def initialize_def db_keys_def
        get_component_class_def Bob_world_def store_defs)
  have d: "sublist ''ghost'' (''Component with key ghost has not been found. '' @
                      ''Make sure it has been imported before being used.'')"
    by code_simp
  have e: "\<not> sublist ''Bob'' (''Component with key ghost has not been found. '' @
                        ''Make sure it has been imported before being used.'')"
    by code_simp
  show ?thesis using a b c d e by blast
qed

subsection \<open>Adding and removing a component\<close>

lemmas handler_defs =
  add_def append_db_key_def db_keys_def set_component_def signals_add_def
  add_component_tags_def at_added_def host_cmdset_add_def
  remove_def has_slot_def at_removed_def host_cmdset_remove_def handler_cmdset_remove_def
  remove_component_tags_def signals_remove_def remove_db_key_def del_loaded_component_def
  get_by_key_def get_by_slot_def tags_add_def tags_remove_def
  get_component_key_def get_component_slot_def

lemmas setup_defs =
  at_init_def ComponentHandler_init_def components_def initialize_def
  default_create_def Component_init_def






















text \<open>
  With a tag field the \<^verbatim>\<open>remove\<close> does not complete.  On a freshly initialised host, the
  instance of \<open>Mood\<close> (key and slot \<open>mood\<close>, one tag field) is added; \<^verbatim>\<open>remove\<close> raises
  \<^verbatim>\<open>AttributeError\<close>, since \<^verbatim>\<open>at_removed\<close> has unbound the host before the tag field is
  deleted, and the persisted list still holds \<open>mood\<close>.
\<close>

theorem add_remove_Mood_evaluation:
  "get_component_key Mood = get_component_slot Mood \<and>
   fst (db_keys 1 mood_world) = [] \<and>
   fst (add 1 0 mood_world) = None \<and>
   fst (remove 1 0 (snd (add 1 0 mood_world))) = Some AttributeError \<and>
   fst (db_keys 1 (snd (remove 1 0 (snd (add 1 0 mood_world))))) = [''mood'']"
  by (simp add: mood_world_def ready_world_def Mood_def Component_def multi_tag_def setup_defs
      handler_defs store_defs TagField_delete_def TagField_set_def Let_def)


text \<open>
  Claim C1 fails when the key differs from the slot.  On a freshly initialised host, the
  instance of \<open>Mount\<close> (key \<open>horse\<close>, slot \<open>mount\<close>) is added and found under both; \<^verbatim>\<open>remove\<close>
  then raises \<^verbatim>\<open>ValueError\<close>, because it deletes the slot from the persisted list to which
  \<^verbatim>\<open>add\<close> appended the key, and the cache still holds the instance under key and slot.
\<close>

theorem add_remove_Mount_evaluation:
  "fst (default_create Mount 1 ready_world) = Inr 0 \<and>
   fst (add 1 0 mount_world) = None \<and>
   get_by_key 1 ''horse'' (snd (add 1 0 mount_world)) = Some 0 \<and>
   get_by_slot 1 ''mount'' (snd (add 1 0 mount_world)) = Some 0 \<and>
   fst (remove 1 0 (snd (add 1 0 mount_world)))
     = Some (ValueError ''list.remove(x): x not in list'') \<and>
   get_by_key 1 ''horse'' (snd (remove 1 0 (snd (add 1 0 mount_world)))) = Some 0 \<and>
   get_by_slot 1 ''mount'' (snd (remove 1 0 (snd (add 1 0 mount_world)))) = Some 0 \<and>
   has_slot 1 ''mount'' (snd (remove 1 0 (snd (add 1 0 mount_world))))"
  by (simp add: mount_world_def ready_world_def Mount_def Component_def setup_defs handler_defs
      store_defs Let_def)

text \<open>
  Where the persisted list happens to hold the slot (here as the key of \<open>Saddle\<close>, added
  before), \<^verbatim>\<open>remove\<close> completes: the cache still answers for the key \<open>horse\<close>, and the
  persisted list has lost the entry of the component that stays and kept the one removed.
\<close>

theorem add_remove_stale_key_evaluation:
  "fst (and_then (add 1 1) (remove 1 1) saddle_mount_world) = None \<and>
   get_by_key 1 ''horse'' (snd (and_then (add 1 1) (remove 1 1) saddle_mount_world)) = Some 1 \<and>
   get_by_slot 1 ''saddle'' (snd (and_then (add 1 1) (remove 1 1) saddle_mount_world)) = Some 0 \<and>
   fst (db_keys 1 (snd (and_then (add 1 1) (remove 1 1) saddle_mount_world))) = [''horse'']"
  by (simp add: saddle_mount_world_def ready_world_def Mount_def Saddle_def Component_def
      setup_defs handler_defs store_defs Let_def)



end
